theory Spec2Isabelle
  imports Main "HOL-Library.AList"
begin

section \<open>The na\_ontap\_service\_policy module\<close>

text \<open>
  A shallow embedding of \<^verbatim>\<open>plugins/modules/na_ontap_service_policy.py\<close>.
  Python dictionaries are association lists with distinct keys, kept in insertion
  order (\<open>AList.update\<close> is \<^verbatim>\<open>d[k] = v\<close>, \<open>AList.delete\<close> removes a key,
  \<open>map_of\<close> is \<^verbatim>\<open>d.get(k)\<close>).  \<^verbatim>\<open>fail_json\<close> never returns, so every
  call of it is the \<open>Inl\<close> branch of a sum; \<^verbatim>\<open>exit_json\<close> is \<open>Inr\<close>.
  The remote service is a state of an arbitrary type \<open>'r\<close>, reached only through
  the four operations of the REST client.
\<close>

subsection \<open>Values\<close>

datatype pyval = PStr string | PList "string list"

type_synonym dict = "(string \<times> pyval) list"

text \<open>\<^verbatim>\<open>key in ('services')\<close>: the parenthesised string is a string, not a tuple,
  so Python's \<^verbatim>\<open>in\<close> is the substring test.\<close>

fun str_in :: "string \<Rightarrow> string \<Rightarrow> bool" where
  "str_in k [] = (k = [])"
| "str_in k (c # cs) = (take (length k) (c # cs) = k \<or> str_in k cs)"

subsection \<open>Module parameters\<close>

text \<open>The argument specification (lines 133--144): \<open>state\<close> and \<open>scope\<close> have
  two choices each, \<open>name\<close> is required, the others are optional (\<open>None\<close> when not
  given).  \<open>host\<close> stands for the connection arguments of
  \<^verbatim>\<open>na_ontap_host_argument_spec()\<close>.\<close>

datatype state = present | absent

datatype scope = cluster | svm

record 'h params =
  state :: state
  name :: string
  ipspace :: "string option"
  scope :: "scope option"
  services :: "string list option"
  vserver :: "string option"
  host :: 'h

fun scope_str :: "scope \<Rightarrow> string" where
  "scope_str cluster = ''cluster''"
| "scope_str svm = ''svm''"

text \<open>\<^verbatim>\<open>self.parameters.get(attr)\<close> for the attributes the module reads by name.\<close>

definition parameters_get :: "'h params \<Rightarrow> string \<Rightarrow> pyval option" where
  "parameters_get p attr =
     (if attr = ''name'' then Some (PStr (name p))
      else if attr = ''ipspace'' then map_option PStr (ipspace p)
      else if attr = ''scope'' then map_option (\<lambda>s. PStr (scope_str s)) (scope p)
      else if attr = ''services'' then map_option PList (services p)
      else if attr = ''vserver'' then map_option PStr (vserver p)
      else None)"

record 'h module =
  params :: "'h params"
  check_mode :: bool

subsection \<open>Errors and the exit report\<close>

datatype error =
    RequiredOneOf
  | RequiredIf
  | RestMinimumVersion
  | NoOtherService "string list"
  | VserverWithCluster "string option"
  | VserverNone
  | GetError string
  | CreateError string
  | ModifyNotSupported dict
  | NothingToChange dict
  | ModifyError string
  | DeleteError string
  | KeyError string
  | TypeError

record 'h report =
  rep_changed :: bool
  rep_cd_action :: "string option"
  rep_modify :: "dict option"
  rep_scope :: "'h params"

subsection \<open>The remote service and the REST client\<close>

text \<open>A record of the list endpoint, with the fields of the projection
  \<^verbatim>\<open>name,uuid,ipspace,services,svm\<close>.\<close>

record service_policy =
  sp_name :: string
  sp_uuid :: string
  sp_ipspace :: string
  sp_services :: "string list"
  sp_svm :: "string option"

datatype rest_call =
    GET string dict
  | POST string dict
  | PATCH string dict
  | DELETE string

text \<open>\<^verbatim>\<open>OntapRestAPI\<close>: each operation returns its answer and an error; the three
  mutators also return the new remote state.  A GET cannot change the remote state.\<close>

record 'r rest_api =
  meets_rest_minimum_version :: "'r \<Rightarrow> bool"
  rest_get :: "string \<Rightarrow> dict \<Rightarrow> 'r \<Rightarrow> service_policy list \<times> string option"
  rest_post :: "string \<Rightarrow> dict \<Rightarrow> 'r \<Rightarrow> string option \<times> 'r"
  rest_patch :: "string \<Rightarrow> dict \<Rightarrow> 'r \<Rightarrow> string option \<times> 'r"
  rest_delete :: "string \<Rightarrow> 'r \<Rightarrow> string option \<times> 'r"

text \<open>The world a run acts on: the remote state and the log of the requests the
  module has sent through \<^verbatim>\<open>rest_api.get/post/patch/delete\<close>.\<close>

record 'r world =
  remote :: 'r
  calls :: "rest_call list"

definition api_get ::
  "'r rest_api \<Rightarrow> string \<Rightarrow> dict \<Rightarrow> 'r world \<Rightarrow> (service_policy list \<times> string option) \<times> 'r world" where
  "api_get api path query w =
     (rest_get api path query (remote w), w\<lparr>calls := calls w @ [GET path query]\<rparr>)"

definition api_post ::
  "'r rest_api \<Rightarrow> string \<Rightarrow> dict \<Rightarrow> 'r world \<Rightarrow> string option \<times> 'r world" where
  "api_post api path body w =
     (case rest_post api path body (remote w) of
        (err, r) \<Rightarrow> (err, \<lparr>remote = r, calls = calls w @ [POST path body]\<rparr>))"

definition api_patch ::
  "'r rest_api \<Rightarrow> string \<Rightarrow> dict \<Rightarrow> 'r world \<Rightarrow> string option \<times> 'r world" where
  "api_patch api path body w =
     (case rest_patch api path body (remote w) of
        (err, r) \<Rightarrow> (err, \<lparr>remote = r, calls = calls w @ [PATCH path body]\<rparr>))"

definition api_delete ::
  "'r rest_api \<Rightarrow> string \<Rightarrow> 'r world \<Rightarrow> string option \<times> 'r world" where
  "api_delete api path w =
     (case rest_delete api path (remote w) of
        (err, r) \<Rightarrow> (err, \<lparr>remote = r, calls = calls w @ [DELETE path]\<rparr>))"

text \<open>\<^verbatim>\<open>if error: self.module.fail_json(msg=... % error)\<close>: \<^verbatim>\<open>None\<close> and the empty
  string are false in Python.\<close>

definition fail_if :: "string option \<Rightarrow> (string \<Rightarrow> error) \<Rightarrow> error option" where
  "fail_if err mk = (case err of None \<Rightarrow> None | Some e \<Rightarrow> if e = [] then None else Some (mk e))"

subsection \<open>Helpers of the collection that the module calls\<close>

text \<open>Modelled from the spec: \<^verbatim>\<open>NetAppModule.set_parameters\<close> (module\_utils) is not
  part of the source file.  The desired state is built once from the input parameters;
  an argument that was not given stays \<open>None\<close>, so the copy has the same fields.\<close>

definition set_parameters :: "'h params \<Rightarrow> 'h params" where
  "set_parameters ansible_params = ansible_params"

text \<open>Modelled from the spec: \<^verbatim>\<open>rest_response_helpers.check_for_0_or_1_records\<close> is
  not part of the source file.  A transport or API error is passed on; no record gives
  \<open>None\<close>, one record gives that record, two or more are an error.\<close>

definition check_for_0_or_1_records ::
  "string \<Rightarrow> service_policy list \<Rightarrow> string option \<Rightarrow> service_policy option \<times> string option" where
  "check_for_0_or_1_records api response err =
     (case fail_if err GetError of
        Some _ \<Rightarrow> (None, err)
      | None \<Rightarrow>
          (case response of
             [] \<Rightarrow> (None, None)
           | [r] \<Rightarrow> (Some r, None)
           | _ \<Rightarrow> (None, Some (''unexpected response: more than one record for '' @ api))))"

text \<open>Modelled from the spec: \<^verbatim>\<open>NetAppModule.get_cd_action\<close> is not part of the
  source file.  It is the create/delete decision of the planner: create when the
  resource is absent and desired present, delete when it is present and desired absent,
  \<open>None\<close> otherwise; a non-null decision sets the helper's \<open>changed\<close> flag.  The flag
  is passed in and returned.\<close>

definition get_cd_action ::
  "service_policy option \<Rightarrow> 'h params \<Rightarrow> bool \<Rightarrow> string option \<times> bool" where
  "get_cd_action current desired changed =
     (case current of
        None \<Rightarrow> (if state desired = present then (Some ''create'', True) else (None, changed))
      | Some _ \<Rightarrow> (if state desired = absent then (Some ''delete'', True) else (None, changed)))"

text \<open>Modelled from the spec: \<^verbatim>\<open>NetAppModule.get_modified_attributes\<close> is not part of
  the source file.  It is the attribute-level difference between the current and the
  desired state restricted to the mutable fields; \<open>services\<close>, a set of strings, is the
  only field that can be modified.  A non-empty difference sets the \<open>changed\<close> flag.\<close>

definition get_modified_attributes ::
  "service_policy option \<Rightarrow> 'h params \<Rightarrow> bool \<Rightarrow> dict \<times> bool" where
  "get_modified_attributes current desired changed =
     (let modified =
        (case current of
           None \<Rightarrow> []
         | Some cur \<Rightarrow>
             (case services desired of
                None \<Rightarrow> []
              | Some wanted \<Rightarrow>
                  if set wanted = set (sp_services cur) then []
                  else [(''services'', PList wanted)]))
      in (modified, if modified \<noteq> [] then True else changed))"

subsection \<open>The module object\<close>

record 'h NetAppOntapServicePolicy =
  module :: "'h module"
  na_helper_changed :: bool
  parameters :: "'h params"

text \<open>The checks \<^verbatim>\<open>AnsibleModule\<close> makes from the tables of lines 148--155.\<close>

definition required_one_of :: "'h params \<Rightarrow> bool" where
  "required_one_of p = (ipspace p \<noteq> None \<or> vserver p \<noteq> None)"

definition required_if :: "'h params \<Rightarrow> bool" where
  "required_if p =
     ((if scope p = Some cluster then ipspace p \<noteq> None else True) \<and>
      (if scope p = Some svm then vserver p \<noteq> None else True) \<and>
      (if vserver p = None then ipspace p \<noteq> None else True))"

text \<open>Lines 168--181.\<close>

definition validate_inputs :: "'h params \<Rightarrow> error + 'h params" where
  "validate_inputs p =
     (case
        (case services p of
           None \<Rightarrow> Inr p
         | Some svcs \<Rightarrow>
             if svcs \<noteq> [] \<and> ''no_service'' \<in> set svcs then
               (if length svcs > 1 then Inl (NoOtherService svcs)
                else Inr (p\<lparr>services := Some []\<rparr>))
             else Inr p)
      of
        Inl e \<Rightarrow> Inl e
      | Inr p1 \<Rightarrow>
          if scope p1 = None then
            Inr (p1\<lparr>scope := Some (if vserver p1 = None then cluster else svm)\<rparr>)
          else if scope p1 = Some cluster \<and> vserver p1 \<noteq> None then
            Inl (VserverWithCluster (vserver p1))
          else if scope p1 = Some svm \<and> vserver p1 = None then
            Inl VserverNone
          else Inr p1)"

text \<open>\<^verbatim>\<open>__init__\<close>, lines 131--166: the argument checks, the copy of the parameters, the
  minimum-version check of the REST client, and the validation.  The code of
  \<^verbatim>\<open>fail_if_not_rest_minimum_version\<close> is not part of the source file; its outcome is
  the predicate \<open>meets_rest_minimum_version\<close> on the remote state, and \<open>calls\<close> records
  only the requests the module itself sends through \<^verbatim>\<open>rest_api.get/post/patch/delete\<close>.
  None of the steps of \<^verbatim>\<open>__init__\<close> sends such a request.\<close>

definition init ::
  "'r rest_api \<Rightarrow> 'h module \<Rightarrow> 'r world \<Rightarrow> error + 'h NetAppOntapServicePolicy" where
  "init api m w =
     (if \<not> required_one_of (params m) then Inl RequiredOneOf
      else if \<not> required_if (params m) then Inl RequiredIf
      else if \<not> meets_rest_minimum_version api (remote w) then Inl RestMinimumVersion
      else case validate_inputs (set_parameters (params m)) of
             Inl e \<Rightarrow> Inl e
           | Inr p \<Rightarrow> Inr \<lparr>module = m, na_helper_changed = False, parameters = p\<rparr>)"

text \<open>Lines 183--203.\<close>

definition get_service_policy_query :: "'h params \<Rightarrow> dict" where
  "get_service_policy_query p =
     (let query = [(''name'', PStr (name p)),
                   (''fields'', PStr ''name,uuid,ipspace,services,svm'')];
          query = (case vserver p of
                     None \<Rightarrow> AList.update ''scope'' (PStr ''cluster'') query
                   | Some v \<Rightarrow> AList.update ''svm.name'' (PStr v) query);
          query = (case ipspace p of
                     None \<Rightarrow> query
                   | Some i \<Rightarrow> AList.update ''ipspace.name'' (PStr i) query)
      in query)"

definition get_service_policy ::
  "'r rest_api \<Rightarrow> 'h NetAppOntapServicePolicy \<Rightarrow> 'r world
     \<Rightarrow> (error + service_policy option) \<times> 'r world" where
  "get_service_policy api self w =
     (let api_path = ''network/ip/service-policies'';
          query = get_service_policy_query (parameters self)
      in case api_get api api_path query w of
           ((response, err), w') \<Rightarrow>
             (case check_for_0_or_1_records api_path response err of
                (rec, err') \<Rightarrow>
                  (case fail_if err' GetError of
                     Some e \<Rightarrow> (Inl e, w')
                   | None \<Rightarrow> (Inr rec, w'))))"

text \<open>Lines 205--221.\<close>

definition create_service_policy_body :: "'h params \<Rightarrow> dict" where
  "create_service_policy_body p =
     (let body = [(''name'', PStr (name p))];
          body = (case vserver p of
                    None \<Rightarrow> body
                  | Some v \<Rightarrow> AList.update ''svm.name'' (PStr v) body)
      in fold (\<lambda>attr body.
                 case parameters_get p attr of
                   None \<Rightarrow> body
                 | Some v \<Rightarrow> AList.update attr v body)
              [''ipspace'', ''scope'', ''services''] body)"

definition create_service_policy ::
  "'r rest_api \<Rightarrow> 'h NetAppOntapServicePolicy \<Rightarrow> 'r world \<Rightarrow> (error + unit) \<times> 'r world" where
  "create_service_policy api self w =
     (let api_path = ''network/ip/service-policies'';
          body = create_service_policy_body (parameters self)
      in case api_post api api_path body w of
           (err, w') \<Rightarrow>
             (case fail_if err CreateError of
                Some e \<Rightarrow> (Inl e, w')
              | None \<Rightarrow> (Inr (), w')))"

text \<open>Lines 223--241.  The loop of lines 228--230 runs over the keys of \<open>modify\<close>
  with the pair (\<open>body\<close>, \<open>modify_copy\<close>) as its state; \<^verbatim>\<open>pop\<close> of a key that is
  not there raises \<^verbatim>\<open>KeyError\<close>.\<close>

fun modify_loop :: "string list \<Rightarrow> dict \<times> dict \<Rightarrow> error + dict \<times> dict" where
  "modify_loop [] (body, modify_copy) = Inr (body, modify_copy)"
| "modify_loop (key # keys) (body, modify_copy) =
     (if str_in key ''services'' then
        (case map_of modify_copy key of
           None \<Rightarrow> Inl (KeyError key)
         | Some v \<Rightarrow> modify_loop keys (AList.update key v body, AList.delete key modify_copy))
      else modify_loop keys (body, modify_copy))"

definition modify_service_policy ::
  "'r rest_api \<Rightarrow> service_policy option \<Rightarrow> dict \<Rightarrow> 'r world \<Rightarrow> (error + unit) \<times> 'r world" where
  "modify_service_policy api current modify w =
     (case current of
        None \<Rightarrow> (Inl TypeError, w)
      | Some cur \<Rightarrow>
          (let api_path = ''network/ip/service-policies/'' @ sp_uuid cur
           in case modify_loop (map fst modify) ([], modify) of
                Inl e \<Rightarrow> (Inl e, w)
              | Inr (body, modify_copy) \<Rightarrow>
                  if modify_copy \<noteq> [] then (Inl (ModifyNotSupported modify_copy), w)
                  else if body = [] then (Inl (NothingToChange modify), w)
                  else (case api_patch api api_path body w of
                          (err, w') \<Rightarrow>
                            (case fail_if err ModifyError of
                               Some e \<Rightarrow> (Inl e, w')
                             | None \<Rightarrow> (Inr (), w')))))"

text \<open>Lines 243--249.\<close>

definition delete_service_policy ::
  "'r rest_api \<Rightarrow> service_policy option \<Rightarrow> 'r world \<Rightarrow> (error + unit) \<times> 'r world" where
  "delete_service_policy api current w =
     (case current of
        None \<Rightarrow> (Inl TypeError, w)
      | Some cur \<Rightarrow>
          (let api_path = ''network/ip/service-policies/'' @ sp_uuid cur
           in case api_delete api api_path w of
                (err, w') \<Rightarrow>
                  (case fail_if err DeleteError of
                     Some e \<Rightarrow> (Inl e, w')
                   | None \<Rightarrow> (Inr (), w'))))"

text \<open>Lines 251--259.  The result carries the module object, whose helper may have
  set \<open>changed\<close>.\<close>

definition get_actions ::
  "'r rest_api \<Rightarrow> 'h NetAppOntapServicePolicy \<Rightarrow> 'r world
     \<Rightarrow> (error + (string option \<times> dict option \<times> service_policy option
                    \<times> 'h NetAppOntapServicePolicy)) \<times> 'r world" where
  "get_actions api self w =
     (case get_service_policy api self w of
        (Inl e, w') \<Rightarrow> (Inl e, w')
      | (Inr current, w') \<Rightarrow>
          (case get_cd_action current (parameters self) (na_helper_changed self) of
             (cd_action, ch) \<Rightarrow>
               if cd_action = None then
                 (case get_modified_attributes current (parameters self) ch of
                    (modify, ch') \<Rightarrow>
                      (Inr (cd_action, Some modify, current, self\<lparr>na_helper_changed := ch'\<rparr>), w'))
               else (Inr (cd_action, None, current, self\<lparr>na_helper_changed := ch\<rparr>), w')))"

text \<open>Lines 261--272.\<close>

definition exit_json ::
  "'h NetAppOntapServicePolicy \<Rightarrow> string option \<Rightarrow> dict option \<Rightarrow> 'h report" where
  "exit_json self cd_action modify =
     \<lparr>rep_changed = na_helper_changed self, rep_cd_action = cd_action,
      rep_modify = modify, rep_scope = params (module self)\<rparr>"

definition apply_service_policy ::
  "'r rest_api \<Rightarrow> 'h NetAppOntapServicePolicy \<Rightarrow> 'r world \<Rightarrow> (error + 'h report) \<times> 'r world" where
  "apply_service_policy api self w =
     (case get_actions api self w of
        (Inl e, w') \<Rightarrow> (Inl e, w')
      | (Inr (cd_action, modify, current, self'), w') \<Rightarrow>
          (case
             (if na_helper_changed self' \<and> \<not> check_mode (module self') then
                (if cd_action = Some ''create'' then create_service_policy api self' w'
                 else if cd_action = Some ''delete'' then delete_service_policy api current w'
                 else (case modify of
                         None \<Rightarrow> (Inr (), w')
                       | Some m \<Rightarrow>
                           if m \<noteq> [] then modify_service_policy api current m w'
                           else (Inr (), w')))
              else (Inr (), w'))
           of
             (Inl e, w'') \<Rightarrow> (Inl e, w'')
           | (Inr _, w'') \<Rightarrow> (Inr (exit_json self' cd_action modify), w'')))"

text \<open>\<^verbatim>\<open>main\<close>, lines 275--277.\<close>

definition main :: "'r rest_api \<Rightarrow> 'h module \<Rightarrow> 'r world \<Rightarrow> (error + 'h report) \<times> 'r world" where
  "main api m w =
     (case init api m w of
        Inl e \<Rightarrow> (Inl e, w)
      | Inr obj \<Rightarrow> apply_service_policy api obj w)"

subsection \<open>The requests of a run\<close>



subsection \<open>A model of the remote service\<close>

text \<open>Modelled from the spec: the remote service is not part of the repository.  It
  holds the service policies; the list endpoint filters them by \<open>name\<close>, by
  \<open>scope=cluster\<close> or \<open>svm.name\<close>, and by \<open>ipspace.name\<close>; POST adds the policy
  of the body, PATCH sets the services of the policy with the uuid of the path, DELETE
  removes it.  Every request takes effect as requested.\<close>

definition query_matches :: "dict \<Rightarrow> service_policy \<Rightarrow> bool" where
  "query_matches query r =
     ((case map_of query ''name'' of Some (PStr n) \<Rightarrow> sp_name r = n | _ \<Rightarrow> True) \<and>
      (case map_of query ''scope'' of
         Some (PStr s) \<Rightarrow> (if s = ''cluster'' then sp_svm r = None else sp_svm r \<noteq> None)
       | _ \<Rightarrow> True) \<and>
      (case map_of query ''svm.name'' of Some (PStr v) \<Rightarrow> sp_svm r = Some v | _ \<Rightarrow> True) \<and>
      (case map_of query ''ipspace.name'' of Some (PStr i) \<Rightarrow> sp_ipspace r = i | _ \<Rightarrow> True))"

definition uuid_of_path :: "string \<Rightarrow> string option" where
  "uuid_of_path path =
     (let pre = ''network/ip/service-policies/''
      in if take (length pre) path = pre then Some (drop (length pre) path) else None)"

definition fresh_uuid :: "service_policy list \<Rightarrow> string" where
  "fresh_uuid rs = replicate (Suc (fold (\<lambda>r n. max n (length (sp_uuid r))) rs 0)) CHR ''u''"

definition ontap_get :: "string \<Rightarrow> dict \<Rightarrow> service_policy list \<Rightarrow> service_policy list \<times> string option" where
  "ontap_get path query rs =
     (if path = ''network/ip/service-policies'' then (filter (query_matches query) rs, None)
      else ([], Some ''unknown api''))"

definition ontap_post :: "string \<Rightarrow> dict \<Rightarrow> service_policy list \<Rightarrow> string option \<times> service_policy list" where
  "ontap_post path body rs =
     (if path = ''network/ip/service-policies'' then
        (case map_of body ''name'' of
           Some (PStr n) \<Rightarrow>
             (None, rs @ [\<lparr>sp_name = n, sp_uuid = fresh_uuid rs,
                sp_ipspace = (case map_of body ''ipspace'' of Some (PStr i) \<Rightarrow> i | _ \<Rightarrow> ''Default''),
                sp_services = (case map_of body ''services'' of Some (PList l) \<Rightarrow> l | _ \<Rightarrow> []),
                sp_svm = (case map_of body ''svm.name'' of Some (PStr v) \<Rightarrow> Some v | _ \<Rightarrow> None)\<rparr>])
         | _ \<Rightarrow> (Some ''name is required'', rs))
      else (Some ''unknown api'', rs))"

definition ontap_patch :: "string \<Rightarrow> dict \<Rightarrow> service_policy list \<Rightarrow> string option \<times> service_policy list" where
  "ontap_patch path body rs =
     (case uuid_of_path path of
        None \<Rightarrow> (Some ''unknown api'', rs)
      | Some u \<Rightarrow>
          if u \<in> sp_uuid ` set rs then
            (None, map (\<lambda>r. if sp_uuid r = u then
                               (case map_of body ''services'' of
                                  Some (PList l) \<Rightarrow> r\<lparr>sp_services := l\<rparr>
                                | _ \<Rightarrow> r)
                             else r) rs)
          else (Some ''entry does not exist'', rs))"

definition ontap_delete :: "string \<Rightarrow> service_policy list \<Rightarrow> string option \<times> service_policy list" where
  "ontap_delete path rs =
     (case uuid_of_path path of
        None \<Rightarrow> (Some ''unknown api'', rs)
      | Some u \<Rightarrow>
          if u \<in> sp_uuid ` set rs then (None, filter (\<lambda>r. sp_uuid r \<noteq> u) rs)
          else (Some ''entry does not exist'', rs))"

definition ontap :: "service_policy list rest_api" where
  "ontap = \<lparr>meets_rest_minimum_version = (\<lambda>_. True), rest_get = ontap_get,
            rest_post = ontap_post, rest_patch = ontap_patch, rest_delete = ontap_delete\<rparr>"

subsection \<open>Example inputs\<close>

text \<open>The desired state of the scenarios: policy \<open>svc1\<close> on vserver \<open>vs1\<close> with
  the service \<open>data_nfs\<close>; a remote service with no policy, and one that holds the
  policy with uuid \<open>u1\<close>.\<close>

definition svc1 :: "unit params" where
  "svc1 = \<lparr>state = present, name = ''svc1'', ipspace = None, scope = None,
           services = Some [''data_nfs''], vserver = Some ''vs1'', host = ()\<rparr>"

definition run :: "unit params \<Rightarrow> unit module" where
  "run p = \<lparr>params = p, check_mode = False\<rparr>"

definition dry_run :: "unit params \<Rightarrow> unit module" where
  "dry_run p = \<lparr>params = p, check_mode = True\<rparr>"

definition no_policy :: "service_policy list world" where
  "no_policy = \<lparr>remote = [], calls = []\<rparr>"

definition policy_u1 :: service_policy where
  "policy_u1 = \<lparr>sp_name = ''svc1'', sp_uuid = ''u1'', sp_ipspace = ''Default'',
                sp_services = [''data_cifs''], sp_svm = Some ''vs1''\<rparr>"

definition one_policy :: "service_policy list world" where
  "one_policy = \<lparr>remote = [policy_u1], calls = []\<rparr>"

section \<open>Basic facts\<close>

text \<open>\<open>str_in\<close> is the substring relation.\<close>

lemma take_length_prefix: "take (length k) s = k \<longleftrightarrow> (\<exists>q. s = k @ q)"
  by (metis append_eq_conv_conj append_take_drop_id)

lemma str_in_substring: "str_in k s \<longleftrightarrow> (\<exists>p q. s = p @ k @ q)"
proof (induction s)
  case Nil
  then show ?case by simp
next
  case (Cons c cs)
  have "(\<exists>p q. c # cs = p @ k @ q) \<longleftrightarrow> (\<exists>q. c # cs = k @ q) \<or> (\<exists>p q. cs = p @ k @ q)"
  proof
    assume "\<exists>p q. c # cs = p @ k @ q"
    then obtain p q where pq: "c # cs = p @ k @ q" by blast
    show "(\<exists>q. c # cs = k @ q) \<or> (\<exists>p q. cs = p @ k @ q)"
    proof (cases p)
      case Nil
      with pq show ?thesis by auto
    next
      case (Cons a p')
      with pq have "cs = p' @ k @ q" by simp
      then show ?thesis by blast
    qed
  next
    assume "(\<exists>q. c # cs = k @ q) \<or> (\<exists>p q. cs = p @ k @ q)"
    then show "\<exists>p q. c # cs = p @ k @ q"
    proof
      assume "\<exists>q. c # cs = k @ q"
      then obtain q where "c # cs = [] @ k @ q" by auto
      then show ?thesis by blast
    next
      assume "\<exists>p q. cs = p @ k @ q"
      then obtain p q where "c # cs = (c # p) @ k @ q" by auto
      then show ?thesis by blast
    qed
  qed
  with Cons.IH show ?case
    by (simp only: str_in.simps take_length_prefix)
qed

lemma fail_if_None [simp]: "fail_if None mk = None"
  by (simp add: fail_if_def)

lemma create_service_policy_body_list:
  "create_service_policy_body p =
     [(''name'', PStr (name p))]
     @ (case vserver p of None \<Rightarrow> [] | Some v \<Rightarrow> [(''svm.name'', PStr v)])
     @ (case ipspace p of None \<Rightarrow> [] | Some i \<Rightarrow> [(''ipspace'', PStr i)])
     @ (case scope p of None \<Rightarrow> [] | Some s \<Rightarrow> [(''scope'', PStr (scope_str s))])
     @ (case services p of None \<Rightarrow> [] | Some l \<Rightarrow> [(''services'', PList l)])"
  by (simp add: create_service_policy_body_def parameters_get_def Let_def split: option.splits)

lemma map_of_create_service_policy_body:
  "map_of (create_service_policy_body p) k =
     (if k = ''name'' then Some (PStr (name p))
      else if k = ''svm.name'' then map_option PStr (vserver p)
      else if k = ''ipspace'' then map_option PStr (ipspace p)
      else if k = ''scope'' then map_option (\<lambda>s. PStr (scope_str s)) (scope p)
      else if k = ''services'' then map_option PList (services p)
      else None)"
  by (simp add: create_service_policy_body_list split: option.splits)

lemma create_service_policy_calls:
  "\<exists>r w'. create_service_policy api self w = (r, w') \<and>
      calls w' = calls w @ [POST ''network/ip/service-policies''
                              (create_service_policy_body (parameters self))]"
  by (simp add: create_service_policy_def api_post_def Let_def split: prod.splits option.splits)

lemma get_service_policy_query_list:
  "get_service_policy_query p =
     [(''name'', PStr (name p)), (''fields'', PStr ''name,uuid,ipspace,services,svm'')]
     @ (case vserver p of
          None \<Rightarrow> [(''scope'', PStr ''cluster'')]
        | Some v \<Rightarrow> [(''svm.name'', PStr v)])
     @ (case ipspace p of None \<Rightarrow> [] | Some i \<Rightarrow> [(''ipspace.name'', PStr i)])"
  by (simp add: get_service_policy_query_def split: option.splits)

lemma get_service_policy_world:
  "\<exists>r. get_service_policy api self w =
          (r, w\<lparr>calls := calls w @ [GET ''network/ip/service-policies''
                                      (get_service_policy_query (parameters self))]\<rparr>)"
  by (simp add: get_service_policy_def api_get_def Let_def split: prod.splits option.splits)

lemma init_InrD:
  "init api m w = Inr obj \<Longrightarrow>
     module obj = m \<and> na_helper_changed obj = False \<and>
     validate_inputs (params m) = Inr (parameters obj)"
  by (auto simp: init_def set_parameters_def split: if_splits sum.splits)

lemma init_Inl_main: "init api m w = Inl e \<Longrightarrow> main api m w = (Inl e, w)"
  by (simp add: main_def)


lemma get_actions_InrD:
  "get_actions api self w = (Inr (cd, md, cur, self'), w') \<Longrightarrow>
     module self' = module self \<and> parameters self' = parameters self"
  by (auto simp: get_actions_def split: prod.splits sum.splits if_splits)

lemma apply_service_policy_scope:
  "apply_service_policy api self w = (Inr rep, w') \<Longrightarrow> rep_scope rep = params (module self)"
  by (auto simp: apply_service_policy_def exit_json_def dest!: get_actions_InrD
           split: prod.splits sum.splits)

lemma validate_inputs_scope:
  "validate_inputs p = Inr p' \<Longrightarrow> \<exists>sc. scope p' = Some sc"
  by (auto simp: validate_inputs_def split: option.splits if_splits sum.splits)

lemma validate_inputs_no_service:
  "services p = Some [''no_service''] \<Longrightarrow> validate_inputs p = Inr p' \<Longrightarrow> services p' = Some []"
  by (auto simp: validate_inputs_def split: option.splits if_splits sum.splits)


lemma validate_inputs_derive:
  "scope p = None \<Longrightarrow> validate_inputs p = Inr p' \<Longrightarrow>
     scope p' = Some (if vserver p = None then cluster else svm)"
  by (auto simp: validate_inputs_def split: option.splits if_splits sum.splits)

lemma validate_inputs_cluster_vserver:
  "scope p = Some cluster \<Longrightarrow> vserver p \<noteq> None \<Longrightarrow> \<exists>e. validate_inputs p = Inl e"
  by (auto simp: validate_inputs_def split: option.splits if_splits sum.splits)

lemma validate_inputs_svm_no_vserver:
  "scope p = Some svm \<Longrightarrow> vserver p = None \<Longrightarrow> \<exists>e. validate_inputs p = Inl e"
  by (auto simp: validate_inputs_def split: option.splits if_splits sum.splits)

lemma init_validate_Inl:
  "validate_inputs (params m) = Inl e \<Longrightarrow> \<exists>e'. init api m w = Inl e'"
  by (simp add: init_def set_parameters_def)

lemma init_cluster_no_ipspace:
  "scope (params m) = Some cluster \<Longrightarrow> ipspace (params m) = None \<Longrightarrow> \<exists>e'. init api m w = Inl e'"
  by (simp add: init_def required_if_def required_one_of_def)

section \<open>Input validation\<close>





text \<open>Claim C5.  With no scope given, a successful validation sets the scope to
  \<open>svm\<close> when a vserver is given and to \<open>cluster\<close> otherwise.  Scope \<open>cluster\<close>
  with a vserver, and scope \<open>svm\<close> without one, fail the validation.  A run with one
  of these two combinations, or with scope \<open>cluster\<close> and no ipspace, ends with a
  failure in the world it started in: no request has been sent to the endpoint.\<close>

theorem scope_rules:
  "(scope p = None \<and> validate_inputs p = Inr p'
      \<longrightarrow> scope p' = Some (if vserver p = None then cluster else svm))
   \<and> (scope p = Some cluster \<and> vserver p \<noteq> None \<longrightarrow> (\<exists>e. validate_inputs p = Inl e))
   \<and> (scope p = Some svm \<and> vserver p = None \<longrightarrow> (\<exists>e. validate_inputs p = Inl e))
   \<and> (scope (params m) = Some cluster \<and> vserver (params m) \<noteq> None
        \<or> scope (params m) = Some svm \<and> vserver (params m) = None
        \<or> scope (params m) = Some cluster \<and> ipspace (params m) = None
      \<longrightarrow> (\<exists>e. main api m w = (Inl e, w)))"
proof (intro conjI impI)
  assume "scope p = None \<and> validate_inputs p = Inr p'"
  then show "scope p' = Some (if vserver p = None then cluster else svm)"
    using validate_inputs_derive by blast
next
  assume "scope p = Some cluster \<and> vserver p \<noteq> None"
  then show "\<exists>e. validate_inputs p = Inl e"
    using validate_inputs_cluster_vserver by blast
next
  assume "scope p = Some svm \<and> vserver p = None"
  then show "\<exists>e. validate_inputs p = Inl e"
    using validate_inputs_svm_no_vserver by blast
next
  assume "scope (params m) = Some cluster \<and> vserver (params m) \<noteq> None
        \<or> scope (params m) = Some svm \<and> vserver (params m) = None
        \<or> scope (params m) = Some cluster \<and> ipspace (params m) = None"
  then have "\<exists>e. init api m w = Inl e"
    using validate_inputs_cluster_vserver [of "params m"]
      validate_inputs_svm_no_vserver [of "params m"]
      init_validate_Inl [of m _ api w] init_cluster_no_ipspace [of m api w]
    by blast
  then show "\<exists>e. main api m w = (Inl e, w)"
    by (auto dest: init_Inl_main)
qed

theorem scope_rules_witness:
  "validate_inputs svc1 = Inr (svc1\<lparr>scope := Some svm\<rparr>)
   \<and> scope (svc1\<lparr>scope := Some svm\<rparr>) = Some svm
   \<and> (\<exists>e. validate_inputs (svc1\<lparr>scope := Some cluster\<rparr>) = Inl e)
   \<and> (\<exists>e. validate_inputs (svc1\<lparr>scope := Some svm, vserver := None\<rparr>) = Inl e)
   \<and> (\<exists>e. main ontap (run (svc1\<lparr>scope := Some cluster\<rparr>)) no_policy = (Inl e, no_policy))"
proof -
  have v: "validate_inputs svc1 = Inr (svc1\<lparr>scope := Some svm\<rparr>)"
    by (simp add: svc1_def validate_inputs_def)
  show ?thesis
    using v
      scope_rules [of svc1 "svc1\<lparr>scope := Some svm\<rparr>" "run (svc1\<lparr>scope := Some cluster\<rparr>)"
                      ontap no_policy]
      scope_rules [of "svc1\<lparr>scope := Some cluster\<rparr>" svc1 "run svc1" ontap no_policy]
      scope_rules [of "svc1\<lparr>scope := Some svm, vserver := None\<rparr>" svc1 "run svc1" ontap no_policy]
    by (simp add: svc1_def run_def)
qed

text \<open>Claim C10.  After a successful validation the scope is set, so the body of a
  create request built from the validated parameters has the key \<open>scope\<close> with that
  value; and when the services were given as \<open>[no_service]\<close>, that body has the key
  \<open>services\<close> with the empty list as its value.\<close>

theorem validated_scope:
  "validate_inputs p = Inr p' \<longrightarrow>
     (\<exists>sc. scope p' = Some sc \<and>
           map_of (create_service_policy_body p') ''scope'' = Some (PStr (scope_str sc)))
     \<and> (services p = Some [''no_service''] \<longrightarrow>
           map_of (create_service_policy_body p') ''services'' = Some (PList []))"
proof (intro impI conjI)
  assume v: "validate_inputs p = Inr p'"
  then obtain sc where "scope p' = Some sc"
    using validate_inputs_scope by blast
  then show "\<exists>sc. scope p' = Some sc \<and>
           map_of (create_service_policy_body p') ''scope'' = Some (PStr (scope_str sc))"
    by (simp add: map_of_create_service_policy_body)
  assume "services p = Some [''no_service'']"
  with v have "services p' = Some []"
    using validate_inputs_no_service by blast
  then show "map_of (create_service_policy_body p') ''services'' = Some (PList [])"
    by (simp add: map_of_create_service_policy_body)
qed

theorem validated_scope_witness:
  "validate_inputs (svc1\<lparr>services := Some [''no_service'']\<rparr>)
      = Inr (svc1\<lparr>services := Some [], scope := Some svm\<rparr>)
   \<and> map_of (create_service_policy_body (svc1\<lparr>services := Some [], scope := Some svm\<rparr>)) ''scope''
       = Some (PStr ''svm'')
   \<and> map_of (create_service_policy_body (svc1\<lparr>services := Some [], scope := Some svm\<rparr>)) ''services''
       = Some (PList [])"
proof -
  have v: "validate_inputs (svc1\<lparr>services := Some [''no_service'']\<rparr>)
      = Inr (svc1\<lparr>services := Some [], scope := Some svm\<rparr>)"
    by (simp add: svc1_def validate_inputs_def)
  show ?thesis
    using validated_scope [of "svc1\<lparr>services := Some [''no_service'']\<rparr>"
            "svc1\<lparr>services := Some [], scope := Some svm\<rparr>"] v
    by (simp add: svc1_def)
qed

section \<open>Requests\<close>

text \<open>Claim C7.  The query of the lookup is the name, the fixed field projection, then
  \<open>scope=cluster\<close> exactly when no vserver is set and \<open>svm.name\<close> exactly when one
  is set, then \<open>ipspace.name\<close> exactly when an ipspace is set; the lookup sends one
  request, a GET of \<open>network/ip/service-policies\<close> with that query, and leaves the
  remote state as it is.\<close>

theorem lookup_request:
  "get_service_policy_query p =
     [(''name'', PStr (name p)), (''fields'', PStr ''name,uuid,ipspace,services,svm'')]
     @ (if vserver p = None then [(''scope'', PStr ''cluster'')] else [])
     @ (case vserver p of None \<Rightarrow> [] | Some v \<Rightarrow> [(''svm.name'', PStr v)])
     @ (case ipspace p of None \<Rightarrow> [] | Some i \<Rightarrow> [(''ipspace.name'', PStr i)])
   \<and> (\<exists>r. get_service_policy api self w =
          (r, w\<lparr>calls := calls w @ [GET ''network/ip/service-policies''
                                      (get_service_policy_query (parameters self))]\<rparr>))"
  using get_service_policy_world [of api self w]
  by (simp add: get_service_policy_query_list split: option.splits)

theorem lookup_request_witness:
  "get_service_policy_query (svc1\<lparr>scope := Some svm\<rparr>) =
     [(''name'', PStr ''svc1''), (''fields'', PStr ''name,uuid,ipspace,services,svm''),
      (''svm.name'', PStr ''vs1'')]
   \<and> get_service_policy_query (svc1\<lparr>vserver := None, ipspace := Some ''Default'', scope := Some cluster\<rparr>) =
     [(''name'', PStr ''svc1''), (''fields'', PStr ''name,uuid,ipspace,services,svm''),
      (''scope'', PStr ''cluster''), (''ipspace.name'', PStr ''Default'')]"
  using lookup_request [of "svc1\<lparr>scope := Some svm\<rparr>" ontap
           "\<lparr>module = run svc1, na_helper_changed = False, parameters = svc1\<lparr>scope := Some svm\<rparr>\<rparr>" no_policy]
    lookup_request [of "svc1\<lparr>vserver := None, ipspace := Some ''Default'', scope := Some cluster\<rparr>" ontap
           "\<lparr>module = run svc1, na_helper_changed = False, parameters = svc1\<lparr>scope := Some svm\<rparr>\<rparr>" no_policy]
  by (simp add: svc1_def)

text \<open>Claim C8.  The body of the create request has the key \<open>name\<close>, the key
  \<open>svm.name\<close> exactly when a vserver is set, each of \<open>ipspace\<close>, \<open>scope\<close> and
  \<open>services\<close> exactly when the parameter is not \<open>None\<close>, and no other key; the
  create operation sends one request, a POST of \<open>network/ip/service-policies\<close> with
  that body.\<close>

theorem create_body:
  "(\<forall>k. map_of (create_service_policy_body p) k =
     (if k = ''name'' then Some (PStr (name p))
      else if k = ''svm.name'' then map_option PStr (vserver p)
      else if k = ''ipspace'' then map_option PStr (ipspace p)
      else if k = ''scope'' then map_option (\<lambda>s. PStr (scope_str s)) (scope p)
      else if k = ''services'' then map_option PList (services p)
      else None))
   \<and> distinct (map fst (create_service_policy_body p))
   \<and> (\<exists>r w'. create_service_policy api self w = (r, w') \<and>
         calls w' = calls w @ [POST ''network/ip/service-policies''
                                 (create_service_policy_body (parameters self))])"
proof (intro conjI allI)
  show "distinct (map fst (create_service_policy_body p))"
    by (simp add: create_service_policy_body_list split: option.splits)
qed (simp_all only: map_of_create_service_policy_body create_service_policy_calls)

theorem create_body_witness:
  "create_service_policy_body (svc1\<lparr>scope := Some svm\<rparr>) =
     [(''name'', PStr ''svc1''), (''svm.name'', PStr ''vs1''), (''scope'', PStr ''svm''),
      (''services'', PList [''data_nfs''])]
   \<and> map_of (create_service_policy_body (svc1\<lparr>scope := Some svm\<rparr>)) ''ipspace'' = None
   \<and> map_of (create_service_policy_body (svc1\<lparr>scope := Some svm\<rparr>)) ''svm.name'' = Some (PStr ''vs1'')"
  using create_body [of "svc1\<lparr>scope := Some svm\<rparr>" ontap
           "\<lparr>module = run svc1, na_helper_changed = False, parameters = svc1\<lparr>scope := Some svm\<rparr>\<rparr>" no_policy]
  by (simp add: svc1_def create_service_policy_body_list)

section \<open>The exit report\<close>

lemma main_svc1_no_policy:
  "main ontap (run svc1) no_policy =
     (Inr \<lparr>rep_changed = True, rep_cd_action = Some ''create'', rep_modify = None, rep_scope = svc1\<rparr>,
      \<lparr>remote = [\<lparr>sp_name = ''svc1'', sp_uuid = ''u'', sp_ipspace = ''Default'',
                   sp_services = [''data_nfs''], sp_svm = Some ''vs1''\<rparr>],
       calls = [GET ''network/ip/service-policies''
                  [(''name'', PStr ''svc1''), (''fields'', PStr ''name,uuid,ipspace,services,svm''),
                   (''svm.name'', PStr ''vs1'')],
                POST ''network/ip/service-policies''
                  [(''name'', PStr ''svc1''), (''svm.name'', PStr ''vs1''), (''scope'', PStr ''svm''),
                   (''services'', PList [''data_nfs''])]]\<rparr>)"
  by (simp add: main_def init_def run_def svc1_def no_policy_def ontap_def required_one_of_def
        required_if_def set_parameters_def validate_inputs_def apply_service_policy_def
        get_actions_def get_service_policy_def get_service_policy_query_def api_get_def
        ontap_get_def check_for_0_or_1_records_def get_cd_action_def
        create_service_policy_def create_service_policy_body_list api_post_def ontap_post_def
        fresh_uuid_def exit_json_def)

text \<open>Claim C9.  On every successful completion the field \<open>scope\<close> of the exit
  report is the whole parameter record the module was called with, not the scope
  string.\<close>

theorem exit_scope_is_params:
  "main api m w = (Inr rep, w') \<Longrightarrow> rep_scope rep = params m"
  by (auto simp: main_def split: sum.splits dest!: init_InrD apply_service_policy_scope)

theorem exit_scope_is_params_witness:
  "\<exists>rep w'. main ontap (run svc1) no_policy = (Inr rep, w') \<and> rep_scope rep = svc1
      \<and> scope (rep_scope rep) = None"
  using exit_scope_is_params [of ontap "run svc1" no_policy] main_svc1_no_policy
  by (auto simp: run_def svc1_def)

section \<open>The action planner\<close>

lemma get_actions_world:
  "get_actions api self w = (r, w') \<Longrightarrow>
     w' = w\<lparr>calls := calls w @ [GET ''network/ip/service-policies''
                                  (get_service_policy_query (parameters self))]\<rparr>"
  using get_service_policy_world [of api self w]
  by (auto simp: get_actions_def split: prod.splits sum.splits if_splits)

lemma get_actions_plan:
  assumes "get_service_policy api self w = (Inr current, w')"
  shows "get_actions api self w =
           (Inr (fst (get_cd_action current (parameters self) (na_helper_changed self)),
                 (if fst (get_cd_action current (parameters self) (na_helper_changed self)) = None
                  then Some (fst (get_modified_attributes current (parameters self) False))
                  else None),
                 current,
                 self\<lparr>na_helper_changed :=
                   (if fst (get_cd_action current (parameters self) (na_helper_changed self)) = None
                    then snd (get_modified_attributes current (parameters self) (na_helper_changed self))
                    else True)\<rparr>), w')"
  using assms
  by (auto simp: get_actions_def get_cd_action_def get_modified_attributes_def Let_def
           split: prod.splits option.splits)

lemma apply_service_policy_report:
  assumes "get_actions api self w = (Inr (cd, md, cur, self'), w')"
    and "apply_service_policy api self w = (Inr rep, w'')"
  shows "rep = exit_json self' cd md"
  using assms
  by (auto simp: apply_service_policy_def split: prod.splits sum.splits)

lemma delete_service_policy_calls:
  "\<exists>r w'. delete_service_policy api (Some c) w = (r, w') \<and>
      calls w' = calls w @ [DELETE (''network/ip/service-policies/'' @ sp_uuid c)]"
  by (simp add: delete_service_policy_def api_delete_def Let_def split: prod.splits option.splits)

lemma modify_service_policy_calls:
  "\<exists>r w'. modify_service_policy api (Some c) [(''services'', v)] w = (r, w') \<and>
      calls w' = calls w @ [PATCH (''network/ip/service-policies/'' @ sp_uuid c) [(''services'', v)]]"
  by (simp add: modify_service_policy_def api_patch_def Let_def split: prod.splits option.splits)

lemma get_modified_attributes_shape:
  "fst (get_modified_attributes current p ch) = [] \<or>
   (\<exists>c l. current = Some c \<and> services p = Some l \<and>
      fst (get_modified_attributes current p ch) = [(''services'', PList l)])"
  by (simp add: get_modified_attributes_def split: option.splits)

lemma apply_service_policy_requests:
  assumes look: "get_service_policy api self w = (Inr current, w')"
    and ch: "na_helper_changed self = False"
    and nc: "\<not> check_mode (module self)"
  shows "\<exists>r w''. apply_service_policy api self w = (r, w'') \<and>
      calls w'' = calls w' @
        (case current of
           None \<Rightarrow>
             (if state (parameters self) = present
              then [POST ''network/ip/service-policies'' (create_service_policy_body (parameters self))]
              else [])
         | Some c \<Rightarrow>
             (if state (parameters self) = absent
              then [DELETE (''network/ip/service-policies/'' @ sp_uuid c)]
              else if fst (get_modified_attributes current (parameters self) False) = [] then []
              else [PATCH (''network/ip/service-policies/'' @ sp_uuid c)
                      (fst (get_modified_attributes current (parameters self) False))]))"
proof (cases current)
  case None
  show ?thesis
  proof (cases "state (parameters self)")
    case present
    let ?self' = "self\<lparr>na_helper_changed := True\<rparr>"
    obtain r w'' where c: "create_service_policy api ?self' w' = (r, w'')"
      and cs: "calls w'' = calls w' @ [POST ''network/ip/service-policies''
                              (create_service_policy_body (parameters ?self'))]"
      using create_service_policy_calls [of api ?self' w'] by blast
    have "\<exists>r'. apply_service_policy api self w = (r', w'')"
      using get_actions_plan [OF look] ch nc None present c
      by (auto simp: apply_service_policy_def get_cd_action_def split: sum.splits)
    with cs None present show ?thesis
      by auto
  next
    case absent
    have "\<exists>r'. apply_service_policy api self w = (r', w')"
      using get_actions_plan [OF look] ch nc None absent
      by (auto simp: apply_service_policy_def get_cd_action_def get_modified_attributes_def)
    with None absent show ?thesis
      by auto
  qed
next
  case (Some c)
  show ?thesis
  proof (cases "state (parameters self)")
    case absent
    obtain r w'' where d: "delete_service_policy api (Some c) w' = (r, w'')"
      and cs: "calls w'' = calls w' @ [DELETE (''network/ip/service-policies/'' @ sp_uuid c)]"
      using delete_service_policy_calls [of api c w'] by blast
    have "\<exists>r'. apply_service_policy api self w = (r', w'')"
      using get_actions_plan [OF look] ch nc Some absent d
      by (auto simp: apply_service_policy_def get_cd_action_def split: sum.splits)
    with cs Some absent show ?thesis
      by auto
  next
    case present
    let ?d = "fst (get_modified_attributes current (parameters self) False)"
    show ?thesis
    proof (cases "?d = []")
      case True
      then have "snd (get_modified_attributes current (parameters self) False) = False"
        by (simp add: get_modified_attributes_def Let_def)
      then have "\<exists>r'. apply_service_policy api self w = (r', w')"
        using get_actions_plan [OF look] ch nc Some present True
        by (auto simp: apply_service_policy_def get_cd_action_def)
      with Some present True show ?thesis
        by auto
    next
      case False
      then obtain l where dl: "?d = [(''services'', PList l)]"
        using get_modified_attributes_shape [of current "parameters self" False] by auto
      from False have sn: "snd (get_modified_attributes current (parameters self) False) = True"
        by (simp add: get_modified_attributes_def Let_def)
      obtain r w'' where m: "modify_service_policy api (Some c) [(''services'', PList l)] w' = (r, w'')"
        and cs: "calls w'' = calls w' @ [PATCH (''network/ip/service-policies/'' @ sp_uuid c)
                                            [(''services'', PList l)]]"
        using modify_service_policy_calls [of api c "PList l" w'] by blast
      have "\<exists>r'. apply_service_policy api self w = (r', w'')"
        using get_actions_plan [OF look] ch nc Some present dl sn m
        by (auto simp: apply_service_policy_def get_cd_action_def split: sum.splits)
      with cs Some present False dl show ?thesis
        by auto
    qed
  qed
qed

text \<open>Claim C1.  After a lookup that returned \<open>current\<close>, with a fresh helper,
  \<open>get_actions\<close> returns a create/delete decision and a difference that depend on the
  current and the desired state only, as in the table: absent and desired present gives
  \<open>create\<close>; present and desired absent gives \<open>delete\<close>; present and desired present
  gives no decision and the difference of the mutable fields, which is a modification
  exactly when it is not empty; absent and desired absent gives no decision and the empty
  difference.  The difference is computed exactly when the decision is null, and the
  helper's \<open>changed\<close> flag, which a successful run reports, is true exactly when the
  decision is non-null or the difference is non-empty.  Outside check mode the run then
  sends the request of that action and no other: a POST for create, a DELETE for delete,
  a PATCH with the difference for a non-empty difference, nothing otherwise.\<close>

theorem planner_table:
  assumes "get_service_policy api self w = (Inr current, w')"
    and "na_helper_changed self = False"
  shows "\<exists>cd md self'.
      get_actions api self w = (Inr (cd, md, current, self'), w')
    \<and> (current = None \<and> state (parameters self) = present \<longrightarrow> cd = Some ''create'')
    \<and> (current \<noteq> None \<and> state (parameters self) = absent \<longrightarrow> cd = Some ''delete'')
    \<and> (current \<noteq> None \<and> state (parameters self) = present \<longrightarrow>
          cd = None \<and> md = Some (fst (get_modified_attributes current (parameters self) False)))
    \<and> (current = None \<and> state (parameters self) = absent \<longrightarrow> cd = None \<and> md = Some [])
    \<and> (md = None \<longleftrightarrow> cd \<noteq> None)
    \<and> (na_helper_changed self' \<longleftrightarrow> cd \<noteq> None \<or> (\<exists>d. md = Some d \<and> d \<noteq> []))
    \<and> (\<forall>rep w''. apply_service_policy api self w = (Inr rep, w'') \<longrightarrow>
          rep_cd_action rep = cd \<and> rep_modify rep = md \<and>
          (rep_changed rep \<longleftrightarrow> cd \<noteq> None \<or> (\<exists>d. md = Some d \<and> d \<noteq> [])))
    \<and> (\<not> check_mode (module self) \<longrightarrow>
          (\<exists>r w''. apply_service_policy api self w = (r, w'') \<and>
             calls w'' = calls w' @
               (case current of
                  None \<Rightarrow>
                    (if state (parameters self) = present
                     then [POST ''network/ip/service-policies''
                             (create_service_policy_body (parameters self))]
                     else [])
                | Some c \<Rightarrow>
                    (if state (parameters self) = absent
                     then [DELETE (''network/ip/service-policies/'' @ sp_uuid c)]
                     else if fst (get_modified_attributes current (parameters self) False) = [] then []
                     else [PATCH (''network/ip/service-policies/'' @ sp_uuid c)
                             (fst (get_modified_attributes current (parameters self) False))]))))"
proof -
  let ?p = "parameters self"
  let ?cd = "fst (get_cd_action current ?p False)"
  let ?md = "if ?cd = None then Some (fst (get_modified_attributes current ?p False)) else None"
  let ?ch = "if ?cd = None then snd (get_modified_attributes current ?p False) else True"
  let ?self' = "self\<lparr>na_helper_changed := ?ch\<rparr>"
  have ga: "get_actions api self w = (Inr (?cd, ?md, current, ?self'), w')"
    using get_actions_plan [OF assms(1)] assms(2) by simp
  have t1: "current = None \<and> state ?p = present \<longrightarrow> ?cd = Some ''create''"
    by (simp add: get_cd_action_def)
  have t2: "current \<noteq> None \<and> state ?p = absent \<longrightarrow> ?cd = Some ''delete''"
    by (auto simp: get_cd_action_def split: option.splits)
  have t3: "current \<noteq> None \<and> state ?p = present \<longrightarrow>
          ?cd = None \<and> ?md = Some (fst (get_modified_attributes current ?p False))"
    by (auto simp: get_cd_action_def split: option.splits)
  have t4: "current = None \<and> state ?p = absent \<longrightarrow> ?cd = None \<and> ?md = Some []"
    by (simp add: get_cd_action_def get_modified_attributes_def)
  have t5: "?md = None \<longleftrightarrow> ?cd \<noteq> None"
    by simp
  have t6: "na_helper_changed ?self' \<longleftrightarrow> ?cd \<noteq> None \<or> (\<exists>d. ?md = Some d \<and> d \<noteq> [])"
    by (simp add: get_modified_attributes_def Let_def)
  have t7: "\<forall>rep w''. apply_service_policy api self w = (Inr rep, w'') \<longrightarrow>
          rep_cd_action rep = ?cd \<and> rep_modify rep = ?md \<and>
          (rep_changed rep \<longleftrightarrow> ?cd \<noteq> None \<or> (\<exists>d. ?md = Some d \<and> d \<noteq> []))"
  proof (intro allI impI)
    fix rep w''
    assume "apply_service_policy api self w = (Inr rep, w'')"
    then have "rep = exit_json ?self' ?cd ?md"
      using apply_service_policy_report [OF ga] by blast
    then show "rep_cd_action rep = ?cd \<and> rep_modify rep = ?md \<and>
          (rep_changed rep \<longleftrightarrow> ?cd \<noteq> None \<or> (\<exists>d. ?md = Some d \<and> d \<noteq> []))"
      using t6 by (simp add: exit_json_def)
  qed
  have t8: "\<not> check_mode (module self) \<longrightarrow>
          (\<exists>r w''. apply_service_policy api self w = (r, w'') \<and>
             calls w'' = calls w' @
               (case current of
                  None \<Rightarrow>
                    (if state ?p = present
                     then [POST ''network/ip/service-policies'' (create_service_policy_body ?p)]
                     else [])
                | Some c \<Rightarrow>
                    (if state ?p = absent
                     then [DELETE (''network/ip/service-policies/'' @ sp_uuid c)]
                     else if fst (get_modified_attributes current ?p False) = [] then []
                     else [PATCH (''network/ip/service-policies/'' @ sp_uuid c)
                             (fst (get_modified_attributes current ?p False))])))"
    using apply_service_policy_requests [OF assms(1) assms(2)] by blast
  show ?thesis
  proof (intro exI conjI)
    show "get_actions api self w = (Inr (?cd, ?md, current, ?self'), w')"
      by (rule ga)
  qed (rule t1 t2 t3 t4 t5 t6 t7 t8)+
qed

theorem planner_table_witness:
  "(\<exists>self'. get_actions ontap \<lparr>module = run svc1, na_helper_changed = False,
                       parameters = svc1\<lparr>scope := Some svm\<rparr>\<rparr> one_policy
     = (Inr (None, Some [(''services'', PList [''data_nfs''])], Some policy_u1, self'),
        one_policy\<lparr>calls := [GET ''network/ip/service-policies''
           [(''name'', PStr ''svc1''), (''fields'', PStr ''name,uuid,ipspace,services,svm''),
            (''svm.name'', PStr ''vs1'')]]\<rparr>)
     \<and> na_helper_changed self')
   \<and> (\<exists>r w''. apply_service_policy ontap \<lparr>module = run svc1, na_helper_changed = False,
                       parameters = svc1\<lparr>scope := Some svm\<rparr>\<rparr> one_policy = (r, w'')
          \<and> calls w'' = [GET ''network/ip/service-policies''
           [(''name'', PStr ''svc1''), (''fields'', PStr ''name,uuid,ipspace,services,svm''),
            (''svm.name'', PStr ''vs1'')],
           PATCH ''network/ip/service-policies/u1'' [(''services'', PList [''data_nfs''])]])"
proof -
  have g: "get_service_policy ontap \<lparr>module = run svc1, na_helper_changed = False,
                       parameters = svc1\<lparr>scope := Some svm\<rparr>\<rparr> one_policy
     = (Inr (Some policy_u1),
        one_policy\<lparr>calls := [GET ''network/ip/service-policies''
           [(''name'', PStr ''svc1''), (''fields'', PStr ''name,uuid,ipspace,services,svm''),
            (''svm.name'', PStr ''vs1'')]]\<rparr>)"
    by (simp add: get_service_policy_def get_service_policy_query_def api_get_def ontap_def
          ontap_get_def query_matches_def check_for_0_or_1_records_def svc1_def one_policy_def
          policy_u1_def)
  show ?thesis
    using planner_table [OF g]
    by (auto simp: svc1_def get_modified_attributes_def policy_u1_def run_def one_policy_def)
qed

section \<open>Check mode\<close>

lemma apply_service_policy_check_mode:
  assumes "check_mode (module self)"
  shows "apply_service_policy api self w =
           (case get_actions api self w of
              (Inl e, w') \<Rightarrow> (Inl e, w')
            | (Inr (cd, md, cur, self'), w') \<Rightarrow> (Inr (exit_json self' cd md), w'))"
  using assms
  by (auto simp: apply_service_policy_def split: prod.splits sum.splits dest: get_actions_InrD)

lemma main_dry_run_svc1:
  "main ontap (dry_run svc1) no_policy =
     (Inr \<lparr>rep_changed = True, rep_cd_action = Some ''create'', rep_modify = None, rep_scope = svc1\<rparr>,
      \<lparr>remote = [],
       calls = [GET ''network/ip/service-policies''
                  [(''name'', PStr ''svc1''), (''fields'', PStr ''name,uuid,ipspace,services,svm''),
                   (''svm.name'', PStr ''vs1'')]]\<rparr>)"
  by (simp add: main_def init_def dry_run_def svc1_def no_policy_def ontap_def required_one_of_def
        required_if_def set_parameters_def validate_inputs_def apply_service_policy_def
        get_actions_def get_service_policy_def get_service_policy_query_def api_get_def
        ontap_get_def check_for_0_or_1_records_def get_cd_action_def exit_json_def)

text \<open>Claim C6.  In check mode a run leaves the remote state as it is and sends no
  request but the GET of the lookup (none at all when \<open>__init__\<close> fails), so no POST,
  PATCH or DELETE; and when the lookup and the planner return, the run exits with the
  planner's \<open>changed\<close> flag, decision and difference as its report.\<close>

theorem check_mode_frame:
  assumes "check_mode m"
  shows "\<exists>r w'. main api m w = (r, w') \<and> remote w' = remote w
      \<and> (calls w' = calls w \<or> (\<exists>q. calls w' = calls w @ [GET ''network/ip/service-policies'' q]))
      \<and> (\<forall>obj cd md cur obj' w1.
            init api m w = Inr obj \<and> get_actions api obj w = (Inr (cd, md, cur, obj'), w1) \<longrightarrow>
            r = Inr \<lparr>rep_changed = na_helper_changed obj', rep_cd_action = cd,
                     rep_modify = md, rep_scope = params m\<rparr> \<and> w' = w1)"
proof (cases "init api m w")
  case (Inl e)
  then show ?thesis
    by (simp add: main_def)
next
  case (Inr obj)
  then have mo: "module obj = m"
    by (simp add: init_InrD)
  with assms have cm: "check_mode (module obj)"
    by simp
  obtain r w1 where ga: "get_actions api obj w = (r, w1)"
    by (cases "get_actions api obj w") auto
  then have w1: "w1 = w\<lparr>calls := calls w @ [GET ''network/ip/service-policies''
                                  (get_service_policy_query (parameters obj))]\<rparr>"
    by (rule get_actions_world)
  show ?thesis
  proof (cases r)
    case (Inl e)
    with Inr ga w1 cm show ?thesis
      by (simp add: main_def apply_service_policy_check_mode)
  next
    case r: (Inr t)
    obtain cd md cur obj' where t: "t = (cd, md, cur, obj')"
      by (cases t) auto
    from ga r t have "module obj' = module obj"
      by (simp add: get_actions_InrD)
    with Inr ga w1 cm r t mo show ?thesis
      by (simp add: main_def apply_service_policy_check_mode exit_json_def)
  qed
qed

theorem check_mode_frame_witness:
  "check_mode (dry_run svc1) \<and>
   (\<exists>r w'. main ontap (dry_run svc1) no_policy = (r, w') \<and> remote w' = remote no_policy
      \<and> calls w' = [GET ''network/ip/service-policies''
                  [(''name'', PStr ''svc1''), (''fields'', PStr ''name,uuid,ipspace,services,svm''),
                   (''svm.name'', PStr ''vs1'')]]
      \<and> r = Inr \<lparr>rep_changed = True, rep_cd_action = Some ''create'', rep_modify = None,
                  rep_scope = svc1\<rparr>)"
proof -
  have c: "check_mode (dry_run svc1)"
    by (simp add: dry_run_def)
  show ?thesis
    using check_mode_frame [OF c, of ontap no_policy] main_dry_run_svc1 c
    by simp
qed

section \<open>The modify operation\<close>

text \<open>What \<open>modify_service_policy\<close> does with a difference none of whose keys is a
  proper part of the string \<open>services\<close>: any key other than \<open>services\<close> is a
  failure before the request, so is a difference without the key \<open>services\<close>, and
  otherwise one PATCH is sent to the uuid-addressed endpoint with the \<open>services\<close> key
  alone.\<close>

lemma str_in_services: "str_in ''services'' ''services''"
  by simp

lemma modify_loop_services:
  assumes "\<forall>k\<in>set keys. str_in k ''services'' \<longrightarrow> k = ''services''"
    and "distinct keys"
    and "''services'' \<in> set keys \<longrightarrow> map_of modify_copy ''services'' = Some v"
  shows "modify_loop keys (body, modify_copy) =
           Inr (if ''services'' \<in> set keys
                then (AList.update ''services'' v body, AList.delete ''services'' modify_copy)
                else (body, modify_copy))"
  using assms
proof (induction keys arbitrary: body modify_copy)
  case Nil
  then show ?case by simp
next
  case (Cons key keys)
  show ?case
  proof (cases "key = ''services''")
    case True
    with Cons.prems have notin: "''services'' \<notin> set keys"
      and look: "map_of modify_copy ''services'' = Some v"
      by (auto simp del: str_in.simps)
    have "modify_loop keys (AList.update ''services'' v body, AList.delete ''services'' modify_copy)
            = Inr (AList.update ''services'' v body, AList.delete ''services'' modify_copy)"
      using Cons.IH [where body = "AList.update ''services'' v body"
                       and modify_copy = "AList.delete ''services'' modify_copy"]
        Cons.prems notin by (simp del: str_in.simps)
    with True look show ?thesis
      by (simp del: str_in.simps add: str_in_services)
  next
    case False
    with Cons.prems have ns: "\<not> str_in key ''services''"
      by (auto simp del: str_in.simps)
    have "modify_loop keys (body, modify_copy) =
           Inr (if ''services'' \<in> set keys
                then (AList.update ''services'' v body, AList.delete ''services'' modify_copy)
                else (body, modify_copy))"
      using Cons.IH [where body = body and modify_copy = modify_copy] Cons.prems False
      by (simp del: str_in.simps)
    with False ns show ?thesis
      by (simp del: str_in.simps)
  qed
qed

lemma modify_service_policy_services_only:
  assumes "distinct (map fst modify)"
    and "\<forall>k\<in>set (map fst modify). str_in k ''services'' \<longrightarrow> k = ''services''"
  shows "modify_service_policy api (Some cur) modify w =
     (if \<exists>k\<in>set (map fst modify). k \<noteq> ''services''
      then (Inl (ModifyNotSupported (AList.delete ''services'' modify)), w)
      else case map_of modify ''services'' of
             None \<Rightarrow> (Inl (NothingToChange modify), w)
           | Some v \<Rightarrow>
               (case api_patch api (''network/ip/service-policies/'' @ sp_uuid cur)
                          [(''services'', v)] w of
                  (err, w') \<Rightarrow>
                    (case fail_if err ModifyError of
                       Some e \<Rightarrow> (Inl e, w')
                     | None \<Rightarrow> (Inr (), w'))))"
proof (cases "map_of modify ''services''")
  case None
  then have notin: "''services'' \<notin> set (map fst modify)"
    by (simp add: map_of_eq_None_iff)
  then have loop: "modify_loop (map fst modify) ([], modify) = Inr ([], modify)"
    using modify_loop_services [OF assms(2) assms(1), of modify "PList []" "[]"] by simp
  have del: "AList.delete ''services'' modify = modify"
    using notin by (induction modify) auto
  from notin have "modify \<noteq> [] \<longleftrightarrow> (\<exists>k\<in>set (map fst modify). k \<noteq> ''services'')"
    by (cases modify) auto
  with None loop del show ?thesis
    by (auto simp: modify_service_policy_def)
next
  case (Some v)
  then have isin: "''services'' \<in> set (map fst modify)"
    by (metis map_of_eq_None_iff option.distinct(1) set_map)
  then have loop: "modify_loop (map fst modify) ([], modify)
                     = Inr ([(''services'', v)], AList.delete ''services'' modify)"
    using modify_loop_services [OF assms(2) assms(1), of modify v "[]"] Some by simp
  have "AList.delete ''services'' modify \<noteq> [] \<longleftrightarrow> (\<exists>k\<in>set (map fst modify). k \<noteq> ''services'')"
    by (induction modify) auto
  with Some loop show ?thesis
    by (auto simp: modify_service_policy_def)
qed

text \<open>The test of line 229, \<^verbatim>\<open>key in ('services')\<close>, is a substring test, so a key
  that is a proper part of \<open>services\<close> would move into the body; no parameter of the
  module has such a name, and no difference the planner computes has such a key.\<close>

lemma modify_substring_key:
  "modify_service_policy ontap (Some policy_u1) [(''service'', PList [''data_nfs''])] one_policy
     = (Inr (), one_policy\<lparr>calls := [PATCH ''network/ip/service-policies/u1''
                                         [(''service'', PList [''data_nfs''])]]\<rparr>)"
  by (simp add: modify_service_policy_def api_patch_def ontap_def ontap_patch_def uuid_of_path_def
        policy_u1_def one_policy_def)

lemma get_actions_diff_keys:
  assumes "get_actions api self w = (Inr (cd, Some d, c, self'), w')"
  shows "distinct (map fst d) \<and> (\<forall>k\<in>set (map fst d). k = ''services'')"
proof -
  have "d = fst (get_modified_attributes c (parameters self) (na_helper_changed self))"
    using assms
    by (auto simp: get_actions_def get_cd_action_def split: prod.splits sum.splits if_splits option.splits)
  then show ?thesis
    using get_modified_attributes_shape [of c "parameters self" "na_helper_changed self"]
    by auto
qed

text \<open>Claim C4.  For a difference whose keys are distinct and none of which is a
  proper part of the string \<open>services\<close>: with any key other than \<open>services\<close> the
  modify operation fails in the world it started in, before any request; without the
  key \<open>services\<close> it fails likewise (with the "nothing to change" error when it has
  no key at all); otherwise it sends one PATCH to the uuid-addressed endpoint with the
  \<open>services\<close> key alone as its body.  The names of the module's parameters
  are such keys, and so is every key of a difference that \<open>get_actions\<close> computes.\<close>

theorem modify_contract:
  "(distinct (map fst modify) \<and> (\<forall>k\<in>set (map fst modify). str_in k ''services'' \<longrightarrow> k = ''services'')
      \<longrightarrow> modify_service_policy api (Some cur) modify w =
           (if \<exists>k\<in>set (map fst modify). k \<noteq> ''services''
            then (Inl (ModifyNotSupported (AList.delete ''services'' modify)), w)
            else case map_of modify ''services'' of
                   None \<Rightarrow> (Inl (NothingToChange modify), w)
                 | Some v \<Rightarrow>
                     (case api_patch api (''network/ip/service-policies/'' @ sp_uuid cur)
                                [(''services'', v)] w of
                        (err, w') \<Rightarrow>
                          (case fail_if err ModifyError of
                             Some e \<Rightarrow> (Inl e, w')
                           | None \<Rightarrow> (Inr (), w')))))
   \<and> (\<forall>k\<in>set [''state'', ''name'', ''ipspace'', ''scope'', ''services'', ''vserver''].
         str_in k ''services'' \<longrightarrow> k = ''services'')
   \<and> (\<forall>cd d c self' w1. get_actions api self w = (Inr (cd, Some d, c, self'), w1) \<longrightarrow>
         distinct (map fst d) \<and> (\<forall>k\<in>set (map fst d). str_in k ''services'' \<longrightarrow> k = ''services''))"
proof (intro conjI impI allI)
  assume "distinct (map fst modify) \<and> (\<forall>k\<in>set (map fst modify). str_in k ''services'' \<longrightarrow> k = ''services'')"
  then show "modify_service_policy api (Some cur) modify w =
           (if \<exists>k\<in>set (map fst modify). k \<noteq> ''services''
            then (Inl (ModifyNotSupported (AList.delete ''services'' modify)), w)
            else case map_of modify ''services'' of
                   None \<Rightarrow> (Inl (NothingToChange modify), w)
                 | Some v \<Rightarrow>
                     (case api_patch api (''network/ip/service-policies/'' @ sp_uuid cur)
                                [(''services'', v)] w of
                        (err, w') \<Rightarrow>
                          (case fail_if err ModifyError of
                             Some e \<Rightarrow> (Inl e, w')
                           | None \<Rightarrow> (Inr (), w'))))"
    using modify_service_policy_services_only [of modify api cur w] by blast
next
  show "\<forall>k\<in>set [''state'', ''name'', ''ipspace'', ''scope'', ''services'', ''vserver''].
         str_in k ''services'' \<longrightarrow> k = ''services''"
    by simp
next
  fix cd d c self' w1
  assume "get_actions api self w = (Inr (cd, Some d, c, self'), w1)"
  then have "distinct (map fst d) \<and> (\<forall>k\<in>set (map fst d). k = ''services'')"
    by (rule get_actions_diff_keys)
  then show "distinct (map fst d)" and "\<forall>k\<in>set (map fst d). str_in k ''services'' \<longrightarrow> k = ''services''"
    by auto
qed

theorem modify_contract_witness:
  "modify_service_policy ontap (Some policy_u1) [(''services'', PList [''data_nfs''])] one_policy
     = (Inr (), \<lparr>remote = [policy_u1\<lparr>sp_services := [''data_nfs'']\<rparr>],
                calls = [PATCH ''network/ip/service-policies/u1''
                           [(''services'', PList [''data_nfs''])]]\<rparr>)
   \<and> modify_service_policy ontap (Some policy_u1)
        [(''ipspace'', PStr ''Default''), (''services'', PList [''data_nfs''])] one_policy
     = (Inl (ModifyNotSupported [(''ipspace'', PStr ''Default'')]), one_policy)
   \<and> modify_service_policy ontap (Some policy_u1) [(''name'', PStr ''svc2'')] one_policy
     = (Inl (ModifyNotSupported [(''name'', PStr ''svc2'')]), one_policy)
   \<and> modify_service_policy ontap (Some policy_u1) [] one_policy
     = (Inl (NothingToChange []), one_policy)"
  using modify_contract [of "[(''services'', PList [''data_nfs''])]" ontap policy_u1 one_policy, THEN conjunct1]
    modify_contract [of "[(''ipspace'', PStr ''Default''), (''services'', PList [''data_nfs''])]"
                        ontap policy_u1 one_policy, THEN conjunct1]
    modify_contract [of "[(''name'', PStr ''svc2'')]" ontap policy_u1 one_policy, THEN conjunct1]
    modify_contract [of "[]" ontap policy_u1 one_policy, THEN conjunct1]
  by (simp add: api_patch_def ontap_def ontap_patch_def uuid_of_path_def policy_u1_def one_policy_def)

section \<open>Running twice\<close>

text \<open>Two runs against the model of the remote service, the second one starting in the
  world the first one left.\<close>

lemma query_matches_query:
  "query_matches (get_service_policy_query p) r \<longleftrightarrow>
     sp_name r = name p \<and> sp_svm r = vserver p \<and>
     (case ipspace p of None \<Rightarrow> True | Some i \<Rightarrow> sp_ipspace r = i)"
  by (auto simp: query_matches_def get_service_policy_query_list split: option.splits)

lemma get_service_policy_ontap:
  "get_service_policy ontap self w =
     ((case filter (query_matches (get_service_policy_query (parameters self))) (remote w) of
         [] \<Rightarrow> Inr None
       | [r] \<Rightarrow> Inr (Some r)
       | _ \<Rightarrow> Inl (GetError (''unexpected response: more than one record for ''
                               @ ''network/ip/service-policies''))),
      w\<lparr>calls := calls w @ [GET ''network/ip/service-policies''
                                (get_service_policy_query (parameters self))]\<rparr>)"
  by (simp add: get_service_policy_def api_get_def ontap_def ontap_get_def
        check_for_0_or_1_records_def fail_if_def Let_def split: list.splits)

lemma uuid_of_path_append [simp]:
  "uuid_of_path (''network/ip/service-policies/'' @ u) = Some u"
  by (simp add: uuid_of_path_def)

lemma ontap_post_body:
  "ontap_post ''network/ip/service-policies'' (create_service_policy_body p) rs =
     (None, rs @ [\<lparr>sp_name = name p, sp_uuid = fresh_uuid rs,
                   sp_ipspace = (case ipspace p of Some i \<Rightarrow> i | None \<Rightarrow> ''Default''),
                   sp_services = (case services p of Some l \<Rightarrow> l | None \<Rightarrow> []),
                   sp_svm = vserver p\<rparr>])"
  by (simp add: ontap_post_def map_of_create_service_policy_body split: option.splits)

lemma apply_service_policy_settled:
  assumes "get_service_policy api self w = (Inr current, w')"
    and "na_helper_changed self = False"
    and "fst (get_cd_action current (parameters self) False) = None"
    and "fst (get_modified_attributes current (parameters self) False) = []"
  shows "apply_service_policy api self w =
           (Inr \<lparr>rep_changed = False, rep_cd_action = None, rep_modify = Some [],
                 rep_scope = params (module self)\<rparr>, w')"
proof -
  have "snd (get_modified_attributes current (parameters self) False) = False"
    using assms(4) by (simp add: get_modified_attributes_def Let_def)
  then show ?thesis
    using get_actions_plan [OF assms(1)] assms(2,3,4)
    by (simp add: apply_service_policy_def exit_json_def)
qed

lemma ontap_fields [simp]:
  "rest_post ontap = ontap_post" "rest_patch ontap = ontap_patch"
  "rest_delete ontap = ontap_delete" "meets_rest_minimum_version ontap r"
  by (simp_all add: ontap_def)

lemma init_ontap_again:
  assumes "init ontap m w = Inr obj"
  shows "init ontap (m\<lparr>check_mode := c\<rparr>) w1 = Inr (obj\<lparr>module := m\<lparr>check_mode := c\<rparr>\<rparr>)"
  using assms
  by (auto simp: init_def split: if_splits sum.splits)

text \<open>The remote state after a successful run that was not in check mode.\<close>

lemma create_remote:
  assumes "filter (query_matches (get_service_policy_query (parameters self))) (remote w) = []"
    and "state (parameters self) = present"
    and "\<not> check_mode (module self)"
    and "apply_service_policy ontap self w = (Inr rep, w1)"
  shows "remote w1 = remote w @ [\<lparr>sp_name = name (parameters self), sp_uuid = fresh_uuid (remote w),
                   sp_ipspace = (case ipspace (parameters self) of Some i \<Rightarrow> i | None \<Rightarrow> ''Default''),
                   sp_services = (case services (parameters self) of Some l \<Rightarrow> l | None \<Rightarrow> []),
                   sp_svm = vserver (parameters self)\<rparr>]"
  using assms
  by (auto simp: apply_service_policy_def get_actions_def get_service_policy_ontap
        get_cd_action_def create_service_policy_def api_post_def ontap_post_body Let_def
        split: sum.splits prod.splits)

lemma no_action_remote:
  assumes "get_service_policy api self w = (Inr current, w')"
    and "na_helper_changed self = False"
    and "fst (get_cd_action current (parameters self) False) = None"
    and "fst (get_modified_attributes current (parameters self) False) = []"
    and "apply_service_policy api self w = (Inr rep, w1)"
  shows "remote w1 = remote w"
proof -
  have "w1 = w'"
    using apply_service_policy_settled [OF assms(1-4)] assms(5) by simp
  moreover have "remote w' = remote w"
    using get_service_policy_world [of api self w] assms(1) by auto
  ultimately show ?thesis by simp
qed

lemma delete_remote:
  assumes "filter (query_matches (get_service_policy_query (parameters self))) (remote w) = [cur]"
    and "state (parameters self) = absent"
    and "\<not> check_mode (module self)"
    and "apply_service_policy ontap self w = (Inr rep, w1)"
  shows "remote w1 = filter (\<lambda>r. sp_uuid r \<noteq> sp_uuid cur) (remote w)"
proof -
  have "cur \<in> set (filter (query_matches (get_service_policy_query (parameters self))) (remote w))"
    using assms(1) by simp
  then have "sp_uuid cur \<in> sp_uuid ` set (remote w)"
    by auto
  then show ?thesis
    using assms
    by (auto simp: apply_service_policy_def get_actions_def get_service_policy_ontap
        get_cd_action_def delete_service_policy_def api_delete_def ontap_delete_def uuid_of_path_def Let_def
        split: sum.splits prod.splits)
qed

lemma modify_remote:
  assumes "filter (query_matches (get_service_policy_query (parameters self))) (remote w) = [cur]"
    and "state (parameters self) = present"
    and "services (parameters self) = Some l"
    and "set l \<noteq> set (sp_services cur)"
    and "\<not> check_mode (module self)"
    and "apply_service_policy ontap self w = (Inr rep, w1)"
  shows "remote w1 = map (\<lambda>r. if sp_uuid r = sp_uuid cur then r\<lparr>sp_services := l\<rparr> else r) (remote w)"
proof -
  have "cur \<in> set (filter (query_matches (get_service_policy_query (parameters self))) (remote w))"
    using assms(1) by simp
  then have "sp_uuid cur \<in> sp_uuid ` set (remote w)"
    by auto
  then show ?thesis
    using assms
    by (auto simp: apply_service_policy_def get_actions_def get_service_policy_ontap
        get_cd_action_def get_modified_attributes_def modify_service_policy_def
        api_patch_def ontap_patch_def uuid_of_path_def Let_def
        split: sum.splits prod.splits)
qed


lemma query_matches_services [simp]:
  "query_matches (get_service_policy_query p) (r\<lparr>sp_services := l\<rparr>)
     = query_matches (get_service_policy_query p) r"
  by (simp add: query_matches_query split: option.splits)

lemma apply_service_policy_lookup_failed:
  assumes "get_service_policy api self w = (Inl e, w')"
  shows "apply_service_policy api self w = (Inl e, w')"
  using assms by (simp add: apply_service_policy_def get_actions_def)

lemma settled_after_run:
  assumes nc: "\<not> check_mode (module self)"
    and ch: "na_helper_changed self = False"
    and a: "apply_service_policy ontap self w = (Inr rep, w1)"
  shows "(filter (query_matches (get_service_policy_query (parameters self))) (remote w1) = []
            \<and> state (parameters self) = absent)
       \<or> (\<exists>r. filter (query_matches (get_service_policy_query (parameters self))) (remote w1) = [r]
            \<and> state (parameters self) = present
            \<and> fst (get_modified_attributes (Some r) (parameters self) False) = [])"
proof -
  let ?p = "parameters self"
  let ?q = "get_service_policy_query ?p"
  let ?w' = "w\<lparr>calls := calls w @ [GET ''network/ip/service-policies'' ?q]\<rparr>"
  show ?thesis
  proof (cases "filter (query_matches ?q) (remote w)")
    case Nil
    then have look: "get_service_policy ontap self w = (Inr None, ?w')"
      by (simp add: get_service_policy_ontap)
    show ?thesis
    proof (cases "state ?p")
      case present
      let ?new = "\<lparr>sp_name = name ?p, sp_uuid = fresh_uuid (remote w),
                   sp_ipspace = (case ipspace ?p of Some i \<Rightarrow> i | None \<Rightarrow> ''Default''),
                   sp_services = (case services ?p of Some l \<Rightarrow> l | None \<Rightarrow> []),
                   sp_svm = vserver ?p\<rparr>"
      have r1: "remote w1 = remote w @ [?new]"
        by (rule create_remote [OF Nil present nc a])
      have "query_matches ?q ?new"
        by (simp add: query_matches_query split: option.splits)
      with r1 Nil have "filter (query_matches ?q) (remote w1) = [?new]"
        by simp
      moreover have "fst (get_modified_attributes (Some ?new) ?p False) = []"
        by (simp add: get_modified_attributes_def split: option.splits)
      ultimately show ?thesis
        using present by blast
    next
      case absent
      have "remote w1 = remote w"
        using no_action_remote [OF look ch _ _ a] absent
        by (simp add: get_cd_action_def get_modified_attributes_def)
      with Nil absent show ?thesis
        by simp
    qed
  next
    case (Cons cur rest)
    show ?thesis
    proof (cases rest)
      case Nil
      with Cons have one: "filter (query_matches ?q) (remote w) = [cur]"
        by simp
      then have look: "get_service_policy ontap self w = (Inr (Some cur), ?w')"
        by (simp add: get_service_policy_ontap)
      show ?thesis
      proof (cases "state ?p")
        case absent
        have "remote w1 = filter (\<lambda>r. sp_uuid r \<noteq> sp_uuid cur) (remote w)"
          by (rule delete_remote [OF one absent nc a])
        then have "filter (query_matches ?q) (remote w1)
                     = filter (\<lambda>r. sp_uuid r \<noteq> sp_uuid cur) (filter (query_matches ?q) (remote w))"
          by (simp add: conj_commute)
        with one absent show ?thesis
          by simp
      next
        case present
        show ?thesis
        proof (cases "fst (get_modified_attributes (Some cur) ?p False) = []")
          case True
          have "remote w1 = remote w"
            using no_action_remote [OF look ch _ True a] present
            by (simp add: get_cd_action_def)
          with one present True show ?thesis
            by simp
        next
          case False
          then obtain l where l: "services ?p = Some l" and ne: "set l \<noteq> set (sp_services cur)"
            by (auto simp: get_modified_attributes_def split: option.splits if_splits)
          let ?upd = "\<lambda>r. if sp_uuid r = sp_uuid cur then r\<lparr>sp_services := l\<rparr> else r"
          have "remote w1 = map ?upd (remote w)"
            by (rule modify_remote [OF one present l ne nc a])
          moreover have "\<And>r. query_matches ?q (?upd r) = query_matches ?q r"
            by simp
          ultimately have "filter (query_matches ?q) (remote w1)
                     = map ?upd (filter (query_matches ?q) (remote w))"
            by (simp add: filter_map o_def)
          with one have "filter (query_matches ?q) (remote w1) = [cur\<lparr>sp_services := l\<rparr>]"
            by simp
          moreover have "fst (get_modified_attributes (Some (cur\<lparr>sp_services := l\<rparr>)) ?p False) = []"
            using l by (simp add: get_modified_attributes_def)
          ultimately show ?thesis
            using present by blast
        qed
      qed
    next
      case (Cons cur' rest')
      with \<open>filter (query_matches ?q) (remote w) = cur # rest\<close>
      have "\<exists>e. get_service_policy ontap self w = (Inl e, ?w')"
        by (simp add: get_service_policy_ontap)
      then show ?thesis
        using a by (auto dest: apply_service_policy_lookup_failed)
    qed
  qed
qed

text \<open>Claim C2.  When a run that is not in check mode exits successfully against the
  remote service, whose create, modify and delete requests take effect as requested, a
  second run with the same parameters (in check mode or not) in the world the first one
  left exits with \<open>changed\<close> false, no create/delete decision and the empty
  difference, and leaves the remote state as it is.\<close>

theorem second_run_no_change:
  assumes nc: "\<not> check_mode m"
    and first: "main ontap m w = (Inr rep, w1)"
  shows "\<exists>w2. main ontap (m\<lparr>check_mode := c\<rparr>) w1 =
           (Inr \<lparr>rep_changed = False, rep_cd_action = None, rep_modify = Some [],
                 rep_scope = params m\<rparr>, w2)
         \<and> remote w2 = remote w1"
proof -
  from first obtain obj where i: "init ontap m w = Inr obj"
    and a: "apply_service_policy ontap obj w = (Inr rep, w1)"
    by (auto simp: main_def split: sum.splits)
  from i have mo: "module obj = m" and ch: "na_helper_changed obj = False"
    by (simp_all add: init_InrD)
  let ?p = "parameters obj"
  let ?q = "get_service_policy_query ?p"
  let ?obj2 = "obj\<lparr>module := m\<lparr>check_mode := c\<rparr>\<rparr>"
  let ?w2 = "w1\<lparr>calls := calls w1 @ [GET ''network/ip/service-policies'' ?q]\<rparr>"
  have i2: "init ontap (m\<lparr>check_mode := c\<rparr>) w1 = Inr ?obj2"
    by (rule init_ontap_again [OF i])
  have "\<exists>cur2. get_service_policy ontap ?obj2 w1 = (Inr cur2, ?w2)
          \<and> fst (get_cd_action cur2 ?p False) = None
          \<and> fst (get_modified_attributes cur2 ?p False) = []"
    using settled_after_run [OF _ ch a] nc mo
    by (auto simp: get_service_policy_ontap get_cd_action_def get_modified_attributes_def)
  then obtain cur2 where look: "get_service_policy ontap ?obj2 w1 = (Inr cur2, ?w2)"
    and cd: "fst (get_cd_action cur2 (parameters ?obj2) False) = None"
    and md: "fst (get_modified_attributes cur2 (parameters ?obj2) False) = []"
    by auto
  have "apply_service_policy ontap ?obj2 w1 =
           (Inr \<lparr>rep_changed = False, rep_cd_action = None, rep_modify = Some [],
                 rep_scope = params (module ?obj2)\<rparr>, ?w2)"
    using apply_service_policy_settled [OF look _ cd md] ch by simp
  with i2 show ?thesis
    by (simp add: main_def)
qed


theorem second_run_no_change_witness:
  "\<not> check_mode (run svc1) \<and>
   (\<exists>w2. main ontap (run svc1)
       \<lparr>remote = [\<lparr>sp_name = ''svc1'', sp_uuid = ''u'', sp_ipspace = ''Default'',
                   sp_services = [''data_nfs''], sp_svm = Some ''vs1''\<rparr>],
       calls = [GET ''network/ip/service-policies''
                  [(''name'', PStr ''svc1''), (''fields'', PStr ''name,uuid,ipspace,services,svm''),
                   (''svm.name'', PStr ''vs1'')],
                POST ''network/ip/service-policies''
                  [(''name'', PStr ''svc1''), (''svm.name'', PStr ''vs1''), (''scope'', PStr ''svm''),
                   (''services'', PList [''data_nfs''])]]\<rparr>
     = (Inr \<lparr>rep_changed = False, rep_cd_action = None, rep_modify = Some [], rep_scope = svc1\<rparr>, w2)
     \<and> remote w2 = [\<lparr>sp_name = ''svc1'', sp_uuid = ''u'', sp_ipspace = ''Default'',
                   sp_services = [''data_nfs''], sp_svm = Some ''vs1''\<rparr>])"
proof -
  have nc: "\<not> check_mode (run svc1)"
    by (simp add: run_def)
  show ?thesis
    using second_run_no_change [OF nc main_svc1_no_policy, of False] nc
    by (simp add: run_def)
qed

end
